theory Spec2Isabelle
  imports Main
begin

section \<open>JavaScript values and built-ins used by the components\<close>

text \<open>
  Values of type \<open>any\<close>, JSON documents and the objects handed to the hashing library are
  JavaScript values. Objects are association lists in property order; a property is read
  with \<open>jsGet\<close>, which yields \<open>JUndefined\<close> where JavaScript yields \<open>undefined\<close>.
  Strings are lists of 8-bit characters, read as the code points U+0000 to U+00FF.
\<close>

datatype jsval =
    JUndefined
  | JNull
  | JBool bool
  | JNumber int
  | JString string
  | JArray "jsval list"
  | JObject "(string \<times> jsval) list"

text \<open>Truthiness, as \<open>!x\<close>, \<open>x && y\<close> and \<open>x || y\<close> test it.\<close>

fun truthy :: "jsval \<Rightarrow> bool" where
  "truthy JUndefined = False"
| "truthy JNull = False"
| "truthy (JBool b) = b"
| "truthy (JNumber n) = (n \<noteq> 0)"
| "truthy (JString s) = (s \<noteq> [])"
| "truthy (JArray xs) = True"
| "truthy (JObject kvs) = True"

text \<open>Property access \<open>v.k\<close> on a value that is neither \<open>null\<close> nor \<open>undefined\<close>.\<close>

fun jsGet :: "jsval \<Rightarrow> string \<Rightarrow> jsval" where
  "jsGet (JObject kvs) k = (case map_of kvs k of Some v \<Rightarrow> v | None \<Rightarrow> JUndefined)"
| "jsGet v k = JUndefined"

text \<open>Decimal rendering of an integral JavaScript number (template literals, \<open>String\<close>).\<close>

fun showNat :: "nat \<Rightarrow> string" where
  "showNat n =
     (if n < 10 then [char_of (48 + n)]
      else showNat (n div 10) @ [char_of (48 + n mod 10)])"

definition numberToString :: "int \<Rightarrow> string" where
  "numberToString i = (if i < 0 then CHR ''-'' # showNat (nat (- i)) else showNat (nat i))"

text \<open>
  \<open>String.prototype.toLowerCase\<close> on the code points U+0000 to U+00FF: the letters A to Z
  and the Latin-1 capitals U+00C0 to U+00DE (without the multiplication sign U+00D7) move
  up by 32, every other code point stays.
\<close>

definition lowerChar :: "char \<Rightarrow> char" where
  "lowerChar c =
     (let n = (of_char c :: nat)
      in if (65 \<le> n \<and> n \<le> 90) \<or> (192 \<le> n \<and> n \<le> 222 \<and> n \<noteq> 215)
         then char_of (n + 32) else c)"

definition toLowerCase :: "string \<Rightarrow> string" where
  "toLowerCase s = map lowerChar s"

text \<open>The character class \<open>[a-fA-F0-9]\<close>.\<close>

definition isHexDigit :: "char \<Rightarrow> bool" where
  "isHexDigit c =
     (let n = (of_char c :: nat)
      in (48 \<le> n \<and> n \<le> 57) \<or> (65 \<le> n \<and> n \<le> 70) \<or> (97 \<le> n \<and> n \<le> 102))"

text \<open>
  \<open>s.match(/^0x[a-fA-F0-9]{40}$/)\<close> and \<open>s.match(/^0x[a-fA-F0-9]+$/)\<close> are non-null.
  Without the \<open>m\<close> flag, \<open>$\<close> matches at the end of the input only.
\<close>

definition matchesAddress :: "string \<Rightarrow> bool" where
  "matchesAddress s =
     (case s of
        a # b # rest \<Rightarrow>
          a = CHR ''0'' \<and> b = CHR ''x'' \<and> length rest = 40 \<and> list_all isHexDigit rest
      | _ \<Rightarrow> False)"

definition matchesHexData :: "string \<Rightarrow> bool" where
  "matchesHexData s =
     (case s of
        a # b # rest \<Rightarrow>
          a = CHR ''0'' \<and> b = CHR ''x'' \<and> rest \<noteq> [] \<and> list_all isHexDigit rest
      | _ \<Rightarrow> False)"

subsection \<open>The built-in \<open>Map\<close>\<close>

text \<open>
  A \<open>Map\<close> iterates in insertion order of its keys; \<open>set\<close> on a key already present
  replaces the value and keeps the key's position.
\<close>

fun mapSet :: "'k \<Rightarrow> 'v \<Rightarrow> ('k \<times> 'v) list \<Rightarrow> ('k \<times> 'v) list" where
  "mapSet k v [] = [(k, v)]"
| "mapSet k v ((k', v') # m) =
     (if k' = k then (k, v) # m else (k', v') # mapSet k v m)"

definition mapHas :: "'k \<Rightarrow> ('k \<times> 'v) list \<Rightarrow> bool" where
  "mapHas k m = (map_of m k \<noteq> None)"

definition mapValues :: "('k \<times> 'v) list \<Rightarrow> 'v list" where
  "mapValues m = map snd m"

definition mapSize :: "('k \<times> 'v) list \<Rightarrow> nat" where
  "mapSize m = length m"

section \<open>Data model of the Safe protocol kit, as the components use it\<close>

text \<open>
  \<open>SafeTransactionData\<close>: amounts are decimal strings, \<open>operation\<close> and \<open>nonce\<close> are numbers.
  The field \<open>value\<close> is named \<open>txValue\<close> here.
\<close>

record SafeTransactionData =
  to :: string
  txValue :: string
  data :: string
  operation :: int
  safeTxGas :: string
  baseGas :: string
  gasPrice :: string
  gasToken :: string
  refundReceiver :: string
  nonce :: int

text \<open>
  \<open>EthSafeSignature\<close>: the constructor \<open>new EthSafeSignature(signer, signature,
  isContractSignature)\<close> stores its three arguments in \<open>signer\<close>, \<open>data\<close> (here \<open>sigData\<close>) and
  \<open>isContractSignature\<close>. The record is extensible: whatever else a signature object carries
  lives in the extension.
\<close>

record EthSafeSignature =
  signer :: string
  sigData :: string
  isContractSignature :: bool

text \<open>
  \<open>EthSafeTransaction\<close>: \<open>data\<close> (here \<open>txData\<close>) and the \<open>signatures\<close> map, keyed by the
  lower-cased signer. \<open>hasMethods\<close> tells whether the object still is an instance of the
  class: the object spread \<open>{ ...safeTx }\<close> copies the own properties \<open>data\<close> and
  \<open>signatures\<close> and leaves the prototype's methods (\<open>addSignature\<close>) behind.
\<close>

record 'a EthSafeTransaction =
  txData :: SafeTransactionData
  signatures :: "(string \<times> 'a EthSafeSignature_scheme) list"
  hasMethods :: bool

text \<open>\<open>addSignature(signature)\<close> is \<open>this.signatures.set(signature.signer.toLowerCase(), signature)\<close>.\<close>

definition addSignature ::
  "'a EthSafeSignature_scheme \<Rightarrow> 'a EthSafeTransaction \<Rightarrow> 'a EthSafeTransaction" where
  "addSignature s tx = tx\<lparr>signatures := mapSet (toLowerCase (signer s)) s (signatures tx)\<rparr>"

record SafeInfo =
  owners :: "string list"
  threshold :: int
  version :: "string option"

section \<open>The transaction details component\<close>

datatype toastType = Success | Error | Info

datatype toast = Toast toastType string

record Eip712Data =
  domainHash :: string
  messageHash :: string
  eip712Hash :: string

text \<open>
  What awaiting \<open>broadcastSafeTransaction(safeTx)\<close> gives: a returned value, or a thrown
  one, carried as the message \<open>err instanceof Error ? err.message : String(err)\<close>.
\<close>

datatype broadcastOutcome = Returned jsval | Threw string

text \<open>Calls that leave the component, in the order they are made.\<close>

datatype 'a effect =
    BroadcastSafeTransaction "'a EthSafeTransaction" broadcastOutcome
  | SaveTransaction string "'a EthSafeTransaction" string
  | RemoveTransaction string
  | Download string jsval
  | ClipboardWriteText string
  | RouterPush string
  | SetTimeoutClearToast

record 'a TxDetailsState =
  chain :: "int option"
  connectedAddress :: "string option"
  safeAddress :: string
  txHash :: string
  safeInfo :: "SafeInfo option"
  showModal :: bool
  broadcastHash :: "jsval option"
  broadcastError :: "string option"
  safeTx :: "'a EthSafeTransaction option"
  signing :: bool
  broadcasting :: bool
  toast :: "toast option"
  showAddSigModal :: bool
  signerAddress :: string
  signatureData :: string
  eip712Data :: "Eip712Data option"
  effects :: "'a effect list"

text \<open>
  \<open>chain\<close> holds \<open>chain.id\<close> of the connected chain, \<open>None\<close> when no chain is connected.
  Every handler that shows a toast also schedules its removal.
\<close>

definition showToast :: "toastType \<Rightarrow> string \<Rightarrow> 'a TxDetailsState \<Rightarrow> 'a TxDetailsState" where
  "showToast ty msg st =
     st\<lparr>toast := Some (Toast ty msg), effects := effects st @ [SetTimeoutClearToast]\<rparr>"

subsection \<open>Broadcast button\<close>

text \<open>
  The button is disabled by
  \<open>!(safeTx && safeInfo && safeTx.signatures?.size >= safeInfo.threshold) || broadcasting\<close>;
  \<open>isExecutable\<close> is the parenthesised condition.
\<close>

definition isExecutable :: "'a TxDetailsState \<Rightarrow> bool" where
  "isExecutable st =
     (case safeTx st of
        None \<Rightarrow> False
      | Some tx \<Rightarrow>
          (case safeInfo st of
             None \<Rightarrow> False
           | Some info \<Rightarrow> int (mapSize (signatures tx)) \<ge> threshold info))"

definition broadcastBtnDisabled :: "'a TxDetailsState \<Rightarrow> bool" where
  "broadcastBtnDisabled st = (\<not> isExecutable st \<or> broadcasting st)"

subsection \<open>Signed by the connected account\<close>

text \<open>
  \<open>safeTx && connectedAddress ? safeTx.signatures?.has(connectedAddress.toLowerCase()) ?? false
  : false\<close>. The empty string is falsy.
\<close>

definition hasSignedThisTx :: "'a TxDetailsState \<Rightarrow> bool" where
  "hasSignedThisTx st =
     (case safeTx st of
        None \<Rightarrow> False
      | Some tx \<Rightarrow>
          (case connectedAddress st of
             None \<Rightarrow> False
           | Some a \<Rightarrow> if a = [] then False else mapHas (toLowerCase a) (signatures tx)))"

subsection \<open>The hashing library\<close>

text \<open>
  The ethers functions the components call: \<open>hashMessage\<close>, \<open>TypedDataEncoder.hashDomain\<close>,
  \<open>TypedDataEncoder.hashStruct\<close> and \<open>TypedDataEncoder.hash\<close> (here \<open>hashTypedData\<close>). They are
  parameters of the model; \<open>None\<close> is a thrown exception.
\<close>

record ethers =
  hashMessage :: "jsval \<Rightarrow> string option"
  hashDomain :: "jsval \<Rightarrow> string option"
  hashStruct :: "string \<Rightarrow> jsval \<Rightarrow> jsval \<Rightarrow> string option"
  hashTypedData :: "jsval \<Rightarrow> jsval \<Rightarrow> jsval \<Rightarrow> string option"

subsection \<open>EIP-712 hashes of the loaded transaction\<close>

definition safeTxDomain :: "int \<Rightarrow> string \<Rightarrow> jsval" where
  "safeTxDomain chainId verifyingContract =
     JObject [(''chainId'', JNumber chainId), (''verifyingContract'', JString verifyingContract)]"

definition typeField :: "string \<Rightarrow> string \<Rightarrow> jsval" where
  "typeField n t = JObject [(''name'', JString n), (''type'', JString t)]"

definition safeTxTypes :: jsval where
  "safeTxTypes =
     JObject [(''SafeTx'', JArray
       [typeField ''to'' ''address'',
        typeField ''value'' ''uint256'',
        typeField ''data'' ''bytes'',
        typeField ''operation'' ''uint8'',
        typeField ''safeTxGas'' ''uint256'',
        typeField ''baseGas'' ''uint256'',
        typeField ''gasPrice'' ''uint256'',
        typeField ''gasToken'' ''address'',
        typeField ''refundReceiver'' ''address'',
        typeField ''nonce'' ''uint256''])]"

definition safeTxMessage :: "SafeTransactionData \<Rightarrow> jsval" where
  "safeTxMessage d =
     JObject
       [(''to'', JString (to d)),
        (''value'', JString (txValue d)),
        (''data'', JString (data d)),
        (''operation'', JNumber (operation d)),
        (''safeTxGas'', JString (safeTxGas d)),
        (''baseGas'', JString (baseGas d)),
        (''gasPrice'', JString (gasPrice d)),
        (''gasToken'', JString (gasToken d)),
        (''refundReceiver'', JString (refundReceiver d)),
        (''nonce'', JNumber (nonce d))]"

text \<open>
  The effect that runs when the transaction is loaded. It returns at once unless
  \<open>safeTx\<close>, \<open>safeInfo\<close> and \<open>chain\<close> are all present; an exception of the library sets
  \<open>eip712Data\<close> to \<open>null\<close>.
\<close>

definition eip712Effect :: "ethers \<Rightarrow> 'a TxDetailsState \<Rightarrow> 'a TxDetailsState" where
  "eip712Effect E st =
     (case (safeTx st, safeInfo st, chain st) of
        (Some tx, Some info, Some cid) \<Rightarrow>
          (let domain = safeTxDomain cid (safeAddress st);
               message = safeTxMessage (txData tx)
           in case (hashDomain E domain,
                    hashStruct E ''SafeTx'' safeTxTypes message,
                    hashTypedData E domain safeTxTypes message) of
                (Some dh, Some mh, Some h) \<Rightarrow>
                  st\<lparr>eip712Data := Some \<lparr>domainHash = dh, messageHash = mh, eip712Hash = h\<rparr>\<rparr>
              | _ \<Rightarrow> st\<lparr>eip712Data := None\<rparr>)
      | _ \<Rightarrow> st)"

subsection \<open>Signing\<close>



subsection \<open>Broadcasting\<close>






subsection \<open>Export and share links\<close>

text \<open>
  Both \<open>handleExportSingle\<close> and \<open>handleShareLink\<close> build the same object
  \<open>{ data: safeTx.data, signatures }\<close>, where \<open>signatures\<close> maps every value of the signature
  map to \<open>{ signer, data, isContractSignature }\<close>.
\<close>

text \<open>The object \<open>safeTx.data\<close>, as \<open>JSON.stringify\<close> reads it.\<close>

definition dataJson :: "SafeTransactionData \<Rightarrow> jsval" where
  "dataJson d =
     JObject
       [(''to'', JString (to d)),
        (''value'', JString (txValue d)),
        (''data'', JString (data d)),
        (''operation'', JNumber (operation d)),
        (''safeTxGas'', JString (safeTxGas d)),
        (''baseGas'', JString (baseGas d)),
        (''gasPrice'', JString (gasPrice d)),
        (''gasToken'', JString (gasToken d)),
        (''refundReceiver'', JString (refundReceiver d)),
        (''nonce'', JNumber (nonce d))]"

definition wireSignature :: "'a EthSafeSignature_scheme \<Rightarrow> jsval" where
  "wireSignature sig =
     JObject
       [(''signer'', JString (signer sig)),
        (''data'', JString (sigData sig)),
        (''isContractSignature'', JBool (isContractSignature sig))]"

definition wireSignatures :: "'a EthSafeTransaction \<Rightarrow> jsval list" where
  "wireSignatures tx = map wireSignature (mapValues (signatures tx))"

definition wireTx :: "'a EthSafeTransaction \<Rightarrow> jsval" where
  "wireTx tx =
     JObject [(''data'', dataJson (txData tx)), (''signatures'', JArray (wireSignatures tx))]"

text \<open>
  \<open>handleExportSingle\<close> downloads \<open>JSON.stringify({ tx: txData }, null, 2)\<close> under the name
  \<open>safe-tx-nonce-<nonce>.json\<close>; the effect records the value that is serialised.
\<close>

definition handleExportSingle :: "'a TxDetailsState \<Rightarrow> 'a TxDetailsState" where
  "handleExportSingle st =
     (case safeTx st of
        None \<Rightarrow> st
      | Some tx \<Rightarrow>
          showToast Success ''Transaction exported!''
            (st\<lparr>effects := effects st @
               [Download (''safe-tx-nonce-'' @ numberToString (nonce (txData tx)) @ ''.json'')
                  (JObject [(''tx'', wireTx tx)])]\<rparr>))"

text \<open>
  The browser functions the share links use: \<open>JSON.stringify\<close>, \<open>btoa\<close> (which throws on a
  character outside Latin-1: \<open>None\<close>), \<open>encodeURIComponent\<close> and \<open>window.location.origin\<close>.
\<close>

record browser =
  stringify :: "jsval \<Rightarrow> string"
  btoa :: "string \<Rightarrow> string option"
  encodeURIComponent :: "string \<Rightarrow> string"
  origin :: string

definition handleShareLink :: "browser \<Rightarrow> 'a TxDetailsState \<Rightarrow> 'a TxDetailsState" where
  "handleShareLink B st =
     (case safeTx st of
        None \<Rightarrow> st
      | Some tx \<Rightarrow>
          (case chain st of
             None \<Rightarrow> st
           | Some cid \<Rightarrow>
               (case btoa B (stringify B (JObject [(''tx'', wireTx tx)])) of
                  None \<Rightarrow> showToast Error ''Failed to create share link'' st
                | Some encoded \<Rightarrow>
                    showToast Success ''Share link copied to clipboard!''
                      (st\<lparr>effects := effects st @
                         [ClipboardWriteText
                            (origin B @ ''/safe/'' @ safeAddress st @ ''?importTx='' @
                             encodeURIComponent B encoded @ ''&chainId='' @
                             numberToString cid)]\<rparr>))))"


subsection \<open>Adding a signature by hand\<close>

text \<open>
  \<open>handleAddSignature\<close> reads the two form fields \<open>signerAddress\<close> and \<open>signatureData\<close>.
  \<open>safeTx.addSignature\<close> changes the transaction object in place; on an object that has lost
  its methods the call throws a TypeError, which the handler catches.
\<close>

definition handleAddSignature :: "unit TxDetailsState \<Rightarrow> unit TxDetailsState" where
  "handleAddSignature st =
     (case safeTx st of
        None \<Rightarrow> st
      | Some tx \<Rightarrow>
          (case chain st of
             None \<Rightarrow> st
           | Some cid \<Rightarrow>
               if signerAddress st = [] \<or> signatureData st = [] then
                 showToast Error ''Signer address and signature data are required'' st
               else if \<not> matchesAddress (signerAddress st) then
                 showToast Error ''Invalid signer address format'' st
               else if \<not> matchesHexData (signatureData st) then
                 showToast Error ''Invalid signature data format'' st
               else if \<not> hasMethods tx then
                 showToast Error ''Failed to add signature'' st
               else
                 (let ethSignature =
                        \<lparr>signer = signerAddress st, sigData = signatureData st,
                         isContractSignature = False\<rparr>;
                      tx' = addSignature ethSignature tx
                  in showToast Success ''Signature added successfully!''
                       (st\<lparr>effects := effects st @
                              [SaveTransaction (safeAddress st) tx' (numberToString cid)],
                           safeTx := Some (tx'\<lparr>hasMethods := False\<rparr>),
                           showAddSigModal := False,
                           signerAddress := [],
                           signatureData := []\<rparr>))))"

text \<open>
  Every key of the signature map is the lower-cased signer of its value: so it is for a map
  that only \<open>addSignature\<close> has written.
\<close>

definition keysLowercased :: "(string \<times> 'a EthSafeSignature_scheme) list \<Rightarrow> bool" where
  "keysLowercased m = list_all (\<lambda>(k, s). k = toLowerCase (signer s)) m"

text \<open>
  What the manual flow records for the two form fields, and whether the transaction held by
  the component after \<open>handleAddSignature\<close> carries that signature.
\<close>

definition manualSignature :: "'a TxDetailsState \<Rightarrow> EthSafeSignature" where
  "manualSignature st =
     \<lparr>signer = signerAddress st, sigData = signatureData st, isContractSignature = False\<rparr>"

definition manualSignatureRecorded :: "unit TxDetailsState \<Rightarrow> bool" where
  "manualSignatureRecorded st =
     (case safeTx (handleAddSignature st) of
        None \<Rightarrow> False
      | Some tx' \<Rightarrow>
          map_of (signatures tx') (toLowerCase (signerAddress st)) = Some (manualSignature st))"

text \<open>
  The validation the specification asks for, in its words: the claimed signer is the one a
  signature recovery yields for the digest of the transaction and the signature bytes. The
  component knows the digest as \<open>txHash\<close>; \<open>recover\<close> is any recovery function.
\<close>

definition validatedByRecovery ::
  "(string \<Rightarrow> string \<Rightarrow> string option) \<Rightarrow> 'a TxDetailsState \<Rightarrow> bool" where
  "validatedByRecovery recover st =
     (case recover (txHash st) (signatureData st) of
        None \<Rightarrow> False
      | Some a \<Rightarrow> toLowerCase a = toLowerCase (signerAddress st))"

section \<open>The WalletConnect signing component\<close>


text \<open>
  Comparison of two strings with \<open><\<close> and \<open>>=\<close>: code unit by code unit, a proper prefix
  being smaller.
\<close>

fun jsStringLess :: "string \<Rightarrow> string \<Rightarrow> bool" where
  "jsStringLess [] [] = False"
| "jsStringLess [] (y # ys) = True"
| "jsStringLess (x # xs) [] = False"
| "jsStringLess (x # xs) (y # ys) =
     (if (of_char x :: nat) < of_char y then True
      else if (of_char y :: nat) < of_char x then False
      else jsStringLess xs ys)"

definition jsStringGe :: "string \<Rightarrow> string \<Rightarrow> bool" where
  "jsStringGe a b = (\<not> jsStringLess a b)"

record SafeMessageEip712Data =
  safeMessage :: string
  smEip712Hash :: string
  smDomainHash :: string
  smMessageHash :: string

record WcSignState =
  signParams :: jsval
  wcMethod :: string
  wcSafeInfo :: "SafeInfo option"
  chainId :: int
  wcSafeAddress :: string
  wcEip712Data :: "SafeMessageEip712Data option"



text \<open>The second half: the SafeMessage domain, types and message.\<close>

definition safeVersionOf :: "SafeInfo \<Rightarrow> string" where
  "safeVersionOf info =
     (case version info of None \<Rightarrow> ''1.4.1'' | Some v \<Rightarrow> if v = [] then ''1.4.1'' else v)"

definition includeChainId :: "SafeInfo \<Rightarrow> bool" where
  "includeChainId info = jsStringGe (safeVersionOf info) ''1.3.0''"

definition safeMessageDomain :: "SafeInfo \<Rightarrow> int \<Rightarrow> string \<Rightarrow> jsval" where
  "safeMessageDomain info cid verifyingContract =
     (if includeChainId info
      then JObject [(''chainId'', JNumber cid), (''verifyingContract'', JString verifyingContract)]
      else JObject [(''verifyingContract'', JString verifyingContract)])"




section \<open>Digests\<close>

text \<open>
  A 32-byte digest as the library prints it: \<open>0x\<close> and 64 hexadecimal digits. The library
  documents that each of its four hash functions returns such a string; \<open>ethersDigests\<close>
  says so of the parameter.
\<close>

definition isDigest :: "string \<Rightarrow> bool" where
  "isDigest s = (matchesHexData s \<and> length s = 66)"

definition ethersDigests :: "ethers \<Rightarrow> bool" where
  "ethersDigests E =
     ((\<forall>m h. hashMessage E m = Some h \<longrightarrow> isDigest h)
    \<and> (\<forall>d h. hashDomain E d = Some h \<longrightarrow> isDigest h)
    \<and> (\<forall>n t m h. hashStruct E n t m = Some h \<longrightarrow> isDigest h)
    \<and> (\<forall>d t m h. hashTypedData E d t m = Some h \<longrightarrow> isDigest h))"

section \<open>The component as a state machine\<close>












section \<open>Transaction files\<close>

text \<open>
  The two forms of a transaction file: \<open>{ "transactions": WireTransaction[] }\<close> (batch form)
  and \<open>{ "tx": WireTransaction }\<close> (single form).
\<close>

definition isBatchForm :: "jsval \<Rightarrow> bool" where
  "isBatchForm file = (case jsGet file ''transactions'' of JArray ws \<Rightarrow> True | _ \<Rightarrow> False)"

definition isSingleForm :: "jsval \<Rightarrow> bool" where
  "isSingleForm file = (\<not> isBatchForm file \<and> truthy (jsGet file ''tx''))"

text \<open>
  Modelled from the spec: the reader of an imported transaction file (the import handler of
  the dashboard is not among the sources; its test imports the single form). Both forms
  are accepted; the result is the list of wire transactions the file holds, \<open>None\<close> for any
  other document.
\<close>

definition importTransactionFile :: "jsval \<Rightarrow> jsval list option" where
  "importTransactionFile file =
     (case jsGet file ''transactions'' of
        JArray ws \<Rightarrow> Some ws
      | _ \<Rightarrow> if truthy (jsGet file ''tx'') then Some [jsGet file ''tx''] else None)"

text \<open>
  Modelled from the spec: the export of the dashboard (the handler is not among the
  sources; its test reads \<open>transactions[0].data.to\<close> from the file). It emits the batch form
  of the pending transactions.
\<close>

definition dashboardExport :: "'a EthSafeTransaction list \<Rightarrow> jsval" where
  "dashboardExport txs = JObject [(''transactions'', JArray (map wireTx txs))]"

section \<open>Sample values\<close>

definition zeroAddress :: string where
  "zeroAddress = ''0x0000000000000000000000000000000000000000''"

definition ownerA :: string where
  "ownerA = ''0xF39FD6E51AAD88F6F4CE6AB8827279CFFFB92266''"

definition ownerAChecksum :: string where
  "ownerAChecksum = ''0xf39Fd6e51aad88F6F4ce6aB8827279cffFb92266''"

definition ownerB :: string where
  "ownerB = ''0x70997970c51812dc3a010c7d01b50e0d17dc79c8''"

definition ownerC :: string where
  "ownerC = ''0x3c44cdddb6a900fa2b585dd299e03d12fa4293bc''"

definition sampleSafe :: string where
  "sampleSafe = ''0xe80f3c2046c04bf94b04ca142f94fbf7480110c7''"

definition sampleData :: SafeTransactionData where
  "sampleData =
     \<lparr>to = ''0x1111111111111111111111111111111111111111'', txValue = ''0'', data = ''0x'',
      operation = 0, safeTxGas = ''0'', baseGas = ''0'', gasPrice = ''0'',
      gasToken = zeroAddress, refundReceiver = zeroAddress, nonce = 4\<rparr>"

definition sigOf :: "string \<Rightarrow> string \<Rightarrow> EthSafeSignature" where
  "sigOf a d = \<lparr>signer = a, sigData = d, isContractSignature = False\<rparr>"

definition sampleTx0 :: "unit EthSafeTransaction" where
  "sampleTx0 = \<lparr>txData = sampleData, signatures = [], hasMethods = True\<rparr>"

definition sampleTx1 :: "unit EthSafeTransaction" where
  "sampleTx1 = addSignature (sigOf ownerA ''0xa1'') sampleTx0"

definition sampleTx2 :: "unit EthSafeTransaction" where
  "sampleTx2 = addSignature (sigOf ownerB ''0xb1'') sampleTx1"

definition sampleInfo :: "string \<Rightarrow> SafeInfo" where
  "sampleInfo v = \<lparr>owners = [ownerA, ownerB, ownerC], threshold = 2, version = Some v\<rparr>"

definition sampleState :: "unit EthSafeTransaction \<Rightarrow> string \<Rightarrow> unit TxDetailsState" where
  "sampleState tx v =
     \<lparr>chain = Some 1, connectedAddress = Some ownerAChecksum, safeAddress = sampleSafe,
      txHash = ''0x00'', safeInfo = Some (sampleInfo v), showModal = False,
      broadcastHash = None, broadcastError = None, safeTx = Some tx, signing = False,
      broadcasting = False, toast = None, showAddSigModal = False, signerAddress = [],
      signatureData = [], eip712Data = None, effects = []\<rparr>"

text \<open>The sample state with one signature, and the two fields of the form filled in.\<close>

definition manualState :: "string \<Rightarrow> string \<Rightarrow> unit TxDetailsState" where
  "manualState a d = (sampleState sampleTx1 ''1.4.1'')\<lparr>signerAddress := a, signatureData := d\<rparr>"





text \<open>A stand-in for the hashing library and the browser, to run the model on the samples.\<close>

definition sampleDigest :: "nat \<Rightarrow> string" where
  "sampleDigest n = ''0x'' @ replicate 63 (CHR ''0'') @ [char_of (48 + n)]"

definition keyCount :: "jsval \<Rightarrow> nat" where
  "keyCount v = (case v of JObject kvs \<Rightarrow> length kvs | _ \<Rightarrow> 0)"

definition sampleEthers :: ethers where
  "sampleEthers =
     \<lparr>hashMessage = (\<lambda>m. case m of JString s \<Rightarrow> Some (sampleDigest 1) | _ \<Rightarrow> None),
      hashDomain = (\<lambda>d. Some (sampleDigest (min 2 (keyCount d)))),
      hashStruct = (\<lambda>n t m. Some (sampleDigest 3)),
      hashTypedData = (\<lambda>d t m. Some (sampleDigest (4 + min 2 (keyCount d))))\<rparr>"

definition sampleBrowser :: browser where
  "sampleBrowser =
     \<lparr>stringify = (\<lambda>v. ''{}''), btoa = (\<lambda>s. Some s), encodeURIComponent = (\<lambda>s. s),
      origin = ''http://localhost:3000''\<rparr>"

section \<open>Properties\<close>

subsection \<open>Threshold\<close>

text \<open>
  C5. With a transaction and a SafeInfo loaded, the transaction is executable exactly when
  the number of its signatures is at least the threshold; for a threshold between 1 and the
  number of owners it is not executable with threshold - 1 signatures and executable with
  threshold signatures. The broadcast button is enabled exactly when the transaction is
  executable and no broadcast is in progress.
\<close>

theorem isExecutable_threshold:
  assumes "safeTx st = Some tx" and "safeInfo st = Some info"
  shows "(isExecutable st \<longleftrightarrow> threshold info \<le> int (mapSize (signatures tx)))
       \<and> (1 \<le> threshold info \<and> threshold info \<le> int (length (owners info)) \<longrightarrow>
            (int (mapSize (signatures tx)) = threshold info - 1 \<longrightarrow> \<not> isExecutable st)
          \<and> (int (mapSize (signatures tx)) = threshold info \<longrightarrow> isExecutable st))
       \<and> (\<not> broadcastBtnDisabled st \<longleftrightarrow>
            threshold info \<le> int (mapSize (signatures tx)) \<and> \<not> broadcasting st)"
  using assms by (auto simp: isExecutable_def broadcastBtnDisabled_def)

theorem isExecutable_threshold_witness:
  "safeTx (sampleState sampleTx2 ''1.4.1'') = Some sampleTx2
   \<and> safeInfo (sampleState sampleTx2 ''1.4.1'') = Some (sampleInfo ''1.4.1'')
   \<and> 1 \<le> threshold (sampleInfo ''1.4.1'')
   \<and> threshold (sampleInfo ''1.4.1'') \<le> int (length (owners (sampleInfo ''1.4.1'')))
   \<and> int (mapSize (signatures sampleTx2)) = threshold (sampleInfo ''1.4.1'')
   \<and> isExecutable (sampleState sampleTx2 ''1.4.1'')
   \<and> int (mapSize (signatures sampleTx1)) = threshold (sampleInfo ''1.4.1'') - 1
   \<and> \<not> isExecutable (sampleState sampleTx1 ''1.4.1'')"
proof -
  have a: "safeTx (sampleState sampleTx2 ''1.4.1'') = Some sampleTx2"
    and b: "safeInfo (sampleState sampleTx2 ''1.4.1'') = Some (sampleInfo ''1.4.1'')"
    and a': "safeTx (sampleState sampleTx1 ''1.4.1'') = Some sampleTx1"
    and b': "safeInfo (sampleState sampleTx1 ''1.4.1'') = Some (sampleInfo ''1.4.1'')"
    by (simp_all add: sampleState_def)
  have t: "threshold (sampleInfo ''1.4.1'') = 2" "length (owners (sampleInfo ''1.4.1'')) = 3"
    by (simp_all add: sampleInfo_def)
  have s2: "mapSize (signatures sampleTx2) = 2" by code_simp
  have s1: "mapSize (signatures sampleTx1) = 1" by code_simp
  show ?thesis
    using isExecutable_threshold [OF a b] isExecutable_threshold [OF a' b'] t s1 s2 a b
    by simp
qed

subsection \<open>The signature map\<close>

lemma set_mapSet: "set (mapSet k v m) \<subseteq> insert (k, v) (set m)"
  by (induction m) (auto split: if_splits)

lemma map_of_mapSet: "map_of (mapSet k v m) k' = (if k' = k then Some v else map_of m k')"
  by (induction m) auto

lemma mapSet_fresh: "k \<notin> fst ` set m \<Longrightarrow> mapSet k v m = m @ [(k, v)]"
  by (induction m) auto

lemma keysLowercased_mapSet:
  "keysLowercased m \<Longrightarrow> keysLowercased (mapSet (toLowerCase (signer s)) s m)"
  by (induction m) (auto simp: keysLowercased_def)

lemma keysLowercased_addSignature:
  "keysLowercased (signatures tx) \<Longrightarrow> keysLowercased (signatures (addSignature s tx))"
  by (simp add: addSignature_def keysLowercased_mapSet)

lemma mapHas_keysLowercased:
  "keysLowercased m \<Longrightarrow>
     mapHas (toLowerCase a) m \<longleftrightarrow> (\<exists>s \<in> set (mapValues m). toLowerCase (signer s) = toLowerCase a)"
  by (induction m) (auto simp: keysLowercased_def mapHas_def mapValues_def)

lemma find_None_iff': "(List.find P xs \<noteq> None) \<longleftrightarrow> (\<exists>x \<in> set xs. P x)"
  by (induction xs) auto

lemma signatures_fold_addSignature:
  "distinct (map (\<lambda>s. toLowerCase (signer s)) sigs) \<Longrightarrow>
   (\<forall>s \<in> set sigs. toLowerCase (signer s) \<notin> fst ` set (signatures tx)) \<Longrightarrow>
   signatures (fold addSignature sigs tx) =
     signatures tx @ map (\<lambda>s. (toLowerCase (signer s), s)) sigs"
proof (induction sigs arbitrary: tx)
  case Nil
  then show ?case by simp
next
  case (Cons s sigs)
  have fresh: "toLowerCase (signer s) \<notin> fst ` set (signatures tx)"
    using Cons.prems(2) by simp
  have step: "signatures (addSignature s tx) = signatures tx @ [(toLowerCase (signer s), s)]"
    by (simp add: addSignature_def mapSet_fresh [OF fresh])
  have "\<forall>t \<in> set sigs. toLowerCase (signer t) \<notin> fst ` set (signatures (addSignature s tx))"
    using Cons.prems by (auto simp: step image_iff)
  moreover have "distinct (map (\<lambda>s. toLowerCase (signer s)) sigs)"
    using Cons.prems(1) by simp
  ultimately show ?case
    using Cons.IH [of "addSignature s tx"] by (simp add: step)
qed

lemma mapValues_fold_addSignature:
  assumes "distinct (map (\<lambda>s. toLowerCase (signer s)) sigs)" and "signatures tx0 = []"
  shows "mapValues (signatures (fold addSignature sigs tx0)) = sigs"
  using signatures_fold_addSignature [OF assms(1), of tx0] assms(2)
  by (simp add: mapValues_def comp_def)

subsection \<open>Exported signatures\<close>

text \<open>
  C8. For a loaded transaction, the file that \<open>handleExportSingle\<close> downloads and the
  document that \<open>handleShareLink\<close> encodes into the link carry, for each value of the
  signature map and in the map's order, an object with exactly the fields \<open>signer\<close>, \<open>data\<close>
  and \<open>isContractSignature\<close> (whatever else the signature object holds is left out). When
  the signatures were added one after the other, by signers that differ beyond letter case,
  to a transaction without signatures, that order is the order in which they were added.
\<close>

theorem export_signatures_insertion_order:
  assumes "safeTx st = Some tx"
  shows "effects (handleExportSingle st) =
           effects st @
             [Download (''safe-tx-nonce-'' @ numberToString (nonce (txData tx)) @ ''.json'')
                (JObject [(''tx'', JObject
                   [(''data'', dataJson (txData tx)),
                    (''signatures'', JArray (map (\<lambda>s. JObject
                        [(''signer'', JString (signer s)),
                         (''data'', JString (sigData s)),
                         (''isContractSignature'', JBool (isContractSignature s))])
                      (mapValues (signatures tx))))])]),
              SetTimeoutClearToast]
       \<and> (\<forall>cid encoded.
             chain st = Some cid \<and>
             btoa B (stringify B (JObject [(''tx'', JObject
                   [(''data'', dataJson (txData tx)),
                    (''signatures'', JArray (map (\<lambda>s. JObject
                        [(''signer'', JString (signer s)),
                         (''data'', JString (sigData s)),
                         (''isContractSignature'', JBool (isContractSignature s))])
                      (mapValues (signatures tx))))])]))
               = Some encoded \<longrightarrow>
             effects (handleShareLink B st) =
               effects st @
                 [ClipboardWriteText
                    (origin B @ ''/safe/'' @ safeAddress st @ ''?importTx='' @
                     encodeURIComponent B encoded @ ''&chainId='' @ numberToString cid),
                  SetTimeoutClearToast])
       \<and> (\<forall>sigs tx0.
             tx = fold addSignature sigs tx0 \<and> signatures tx0 = [] \<and>
             distinct (map (\<lambda>s. toLowerCase (signer s)) sigs) \<longrightarrow>
             mapValues (signatures tx) = sigs)"
proof -
  have wire: "wireTx tx = JObject
                   [(''data'', dataJson (txData tx)),
                    (''signatures'', JArray (map (\<lambda>s. JObject
                        [(''signer'', JString (signer s)),
                         (''data'', JString (sigData s)),
                         (''isContractSignature'', JBool (isContractSignature s))])
                      (mapValues (signatures tx))))]"
    unfolding wireTx_def wireSignatures_def
    by (simp add: wireSignature_def [abs_def])
  have fileEq: "effects (handleExportSingle st) =
           effects st @
             [Download (''safe-tx-nonce-'' @ numberToString (nonce (txData tx)) @ ''.json'')
                (JObject [(''tx'', wireTx tx)]),
              SetTimeoutClearToast]"
    using assms by (simp add: handleExportSingle_def showToast_def)
  have link: "chain st = Some cid \<and>
             btoa B (stringify B (JObject [(''tx'', wireTx tx)])) = Some encoded \<longrightarrow>
             effects (handleShareLink B st) =
               effects st @
                 [ClipboardWriteText
                    (origin B @ ''/safe/'' @ safeAddress st @ ''?importTx='' @
                     encodeURIComponent B encoded @ ''&chainId='' @ numberToString cid),
                  SetTimeoutClearToast]" for cid encoded
    using assms by (auto simp: handleShareLink_def showToast_def)
  have order: "tx = fold addSignature sigs tx0 \<and> signatures tx0 = [] \<and>
             distinct (map (\<lambda>s. toLowerCase (signer s)) sigs) \<longrightarrow>
             mapValues (signatures tx) = sigs" for sigs tx0
    using mapValues_fold_addSignature [of sigs tx0] by blast
  show ?thesis
    using fileEq link order unfolding wire by blast
qed

theorem export_signatures_insertion_order_witness:
  "safeTx (sampleState sampleTx2 ''1.4.1'') = Some sampleTx2
   \<and> sampleTx2 = fold addSignature [sigOf ownerA ''0xa1'', sigOf ownerB ''0xb1''] sampleTx0
   \<and> signatures sampleTx0 = []
   \<and> distinct (map (\<lambda>s. toLowerCase (signer s)) [sigOf ownerA ''0xa1'', sigOf ownerB ''0xb1''])
   \<and> jsStringLess ownerB (toLowerCase ownerA)
   \<and> mapValues (signatures sampleTx2) = [sigOf ownerA ''0xa1'', sigOf ownerB ''0xb1'']
   \<and> effects (handleExportSingle (sampleState sampleTx2 ''1.4.1'')) =
        [Download ''safe-tx-nonce-4.json''
           (JObject [(''tx'', JObject
              [(''data'', dataJson sampleData),
               (''signatures'', JArray
                  [JObject [(''signer'', JString ownerA), (''data'', JString ''0xa1''),
                            (''isContractSignature'', JBool False)],
                   JObject [(''signer'', JString ownerB), (''data'', JString ''0xb1''),
                            (''isContractSignature'', JBool False)]])])]),
         SetTimeoutClearToast]"
proof -
  let ?S = "sampleState sampleTx2 ''1.4.1''"
  have a: "safeTx ?S = Some sampleTx2"
    by (simp add: sampleState_def)
  have a': "sampleTx2 = fold addSignature [sigOf ownerA ''0xa1'', sigOf ownerB ''0xb1''] sampleTx0"
    by (simp add: sampleTx2_def sampleTx1_def)
  have b: "signatures sampleTx0 = []"
    by (simp add: sampleTx0_def)
  have c: "distinct (map (\<lambda>s. toLowerCase (signer s)) [sigOf ownerA ''0xa1'', sigOf ownerB ''0xb1''])"
    by code_simp
  have d: "jsStringLess ownerB (toLowerCase ownerA)"
    by code_simp
  have e: "numberToString (nonce sampleData) = ''4''"
    by code_simp
  have f: "effects ?S = []" "txData sampleTx2 = sampleData"
    by (simp_all add: sampleState_def sampleTx2_def sampleTx1_def sampleTx0_def addSignature_def)
  note th = export_signatures_insertion_order [OF a, of sampleBrowser]
  from th a' b c have v: "mapValues (signatures sampleTx2)
      = [sigOf ownerA ''0xa1'', sigOf ownerB ''0xb1'']"
    by blast
  from th have x: "effects (handleExportSingle ?S) =
           effects ?S @
             [Download (''safe-tx-nonce-'' @ numberToString (nonce (txData sampleTx2)) @ ''.json'')
                (JObject [(''tx'', JObject
                   [(''data'', dataJson (txData sampleTx2)),
                    (''signatures'', JArray (map (\<lambda>s. JObject
                        [(''signer'', JString (signer s)),
                         (''data'', JString (sigData s)),
                         (''isContractSignature'', JBool (isContractSignature s))])
                      (mapValues (signatures sampleTx2))))])]),
              SetTimeoutClearToast]"
    by blast
  show ?thesis
    using a a' b c d v by (simp add: x e f sigOf_def)
qed

subsection \<open>Who has signed\<close>

text \<open>
  C9. For a loaded transaction whose signature map was written by \<open>addSignature\<close> and a
  connected address \<open>a\<close>: \<open>hasSignedThisTx\<close> holds exactly when some recorded signature has a
  signer equal to \<open>a\<close> up to letter case; the lookup of \<open>handleShareSignature\<close> finds a
  signature in exactly the same cases.
\<close>

theorem hasSigned_case_insensitive:
  assumes "safeTx st = Some tx" and "connectedAddress st = Some a" and "a \<noteq> []"
    and "keysLowercased (signatures tx)"
  shows "(hasSignedThisTx st \<longleftrightarrow>
           (\<exists>sig \<in> set (mapValues (signatures tx)). toLowerCase (signer sig) = toLowerCase a))
       \<and> (hasSignedThisTx st \<longleftrightarrow>
           List.find (\<lambda>sig. toLowerCase (signer sig) = toLowerCase a)
             (mapValues (signatures tx)) \<noteq> None)"
proof -
  have "hasSignedThisTx st = mapHas (toLowerCase a) (signatures tx)"
    using assms by (simp add: hasSignedThisTx_def)
  then show ?thesis
    using mapHas_keysLowercased [OF assms(4), of a]
      find_None_iff' [of "\<lambda>sig. toLowerCase (signer sig) = toLowerCase a" "mapValues (signatures tx)"]
    by blast
qed

theorem hasSigned_case_insensitive_witness:
  "safeTx (sampleState sampleTx2 ''1.4.1'') = Some sampleTx2
   \<and> connectedAddress (sampleState sampleTx2 ''1.4.1'') = Some ownerAChecksum
   \<and> ownerAChecksum \<noteq> []
   \<and> keysLowercased (signatures sampleTx2)
   \<and> ownerAChecksum \<notin> signer ` set (mapValues (signatures sampleTx2))
   \<and> hasSignedThisTx (sampleState sampleTx2 ''1.4.1'')
   \<and> (\<exists>sig \<in> set (mapValues (signatures sampleTx2)).
         toLowerCase (signer sig) = toLowerCase ownerAChecksum)"
proof -
  have a: "safeTx (sampleState sampleTx2 ''1.4.1'') = Some sampleTx2"
    and b: "connectedAddress (sampleState sampleTx2 ''1.4.1'') = Some ownerAChecksum"
    by (simp_all add: sampleState_def)
  have c: "ownerAChecksum \<noteq> []"
    by (simp add: ownerAChecksum_def)
  have d: "keysLowercased (signatures sampleTx2)"
    by code_simp
  have e: "hasSignedThisTx (sampleState sampleTx2 ''1.4.1'')"
    by code_simp
  have f: "ownerAChecksum \<notin> signer ` set (mapValues (signatures sampleTx2))"
    by code_simp
  show ?thesis
    using hasSigned_case_insensitive [OF a b c d] a b c d e f by blast
qed

subsection \<open>Signatures added by hand\<close>

lemma handleAddSignature_accept:
  assumes "safeTx st = Some tx" and "chain st = Some cid" and "hasMethods tx"
    and "signerAddress st \<noteq> []" and "signatureData st \<noteq> []"
    and "matchesAddress (signerAddress st)" and "matchesHexData (signatureData st)"
  shows "handleAddSignature st =
           showToast Success ''Signature added successfully!''
             (st\<lparr>effects := effects st @
                    [SaveTransaction (safeAddress st) (addSignature (manualSignature st) tx)
                       (numberToString cid)],
                 safeTx := Some ((addSignature (manualSignature st) tx)\<lparr>hasMethods := False\<rparr>),
                 showAddSigModal := False, signerAddress := [], signatureData := []\<rparr>)"
  using assms by (simp add: handleAddSignature_def manualSignature_def Let_def)

lemma handleAddSignature_reject:
  assumes "safeTx st = Some tx" and "chain st = Some cid"
    and "\<not> (hasMethods tx \<and> signerAddress st \<noteq> [] \<and> signatureData st \<noteq> []
           \<and> matchesAddress (signerAddress st) \<and> matchesHexData (signatureData st))"
  shows "\<exists>msg. handleAddSignature st = showToast Error msg st"
  using assms by (auto simp: handleAddSignature_def)

lemma handleAddSignature_idle:
  assumes "safeTx st = None \<or> chain st = None"
  shows "handleAddSignature st = st"
  using assms by (auto simp: handleAddSignature_def split: option.splits)

text \<open>
  C3, as the code has it. For a loaded transaction object that still has its methods and a
  connected chain, \<open>handleAddSignature\<close> decides on the shape of the two form fields alone:
  when both are non-empty, the signer matches \<open>^0x[a-fA-F0-9]{40}$\<close> and the signature
  data matches \<open>^0x[a-fA-F0-9]+$\<close>, the signature is recorded for that signer with
  \<open>isContractSignature = false\<close> and the transaction is saved; otherwise nothing is
  recorded or saved and an error toast is shown. No signer is recovered from the signature.
\<close>

theorem manual_signature_shape_validation:
  assumes "safeTx st = Some tx" and "chain st = Some cid" and "hasMethods tx"
  shows "if signerAddress st \<noteq> [] \<and> signatureData st \<noteq> []
            \<and> matchesAddress (signerAddress st) \<and> matchesHexData (signatureData st)
         then safeTx (handleAddSignature st)
                = Some ((addSignature (manualSignature st) tx)\<lparr>hasMethods := False\<rparr>)
              \<and> effects (handleAddSignature st)
                = effects st @
                    [SaveTransaction (safeAddress st) (addSignature (manualSignature st) tx)
                       (numberToString cid),
                     SetTimeoutClearToast]
              \<and> toast (handleAddSignature st)
                = Some (Toast Success ''Signature added successfully!'')
         else safeTx (handleAddSignature st) = safeTx st
              \<and> effects (handleAddSignature st) = effects st @ [SetTimeoutClearToast]
              \<and> (\<exists>msg. toast (handleAddSignature st) = Some (Toast Error msg))"
proof (cases "signerAddress st \<noteq> [] \<and> signatureData st \<noteq> []
            \<and> matchesAddress (signerAddress st) \<and> matchesHexData (signatureData st)")
  case True
  then show ?thesis
    using handleAddSignature_accept [OF assms] by (simp add: showToast_def)
next
  case False
  then obtain msg where "handleAddSignature st = showToast Error msg st"
    using handleAddSignature_reject [OF assms(1,2)] by blast
  with False show ?thesis
    by (simp add: showToast_def)
qed

theorem manual_signature_shape_validation_witness:
  "safeTx (manualState ownerC ''0xc1'') = Some sampleTx1
   \<and> chain (manualState ownerC ''0xc1'') = Some 1
   \<and> hasMethods sampleTx1
   \<and> matchesAddress ownerC \<and> matchesHexData ''0xc1''
   \<and> safeTx (handleAddSignature (manualState ownerC ''0xc1''))
       = Some ((addSignature (sigOf ownerC ''0xc1'') sampleTx1)\<lparr>hasMethods := False\<rparr>)
   \<and> \<not> matchesHexData ''0xmocksignature''
   \<and> safeTx (handleAddSignature (manualState ownerC ''0xmocksignature'')) = Some sampleTx1"
proof -
  have a: "safeTx (manualState ownerC d) = Some sampleTx1"
    and b: "chain (manualState ownerC d) = Some 1"
    and f: "signerAddress (manualState ownerC d) = ownerC"
           "signatureData (manualState ownerC d) = d" for d
    by (simp_all add: manualState_def sampleState_def)
  have c: "hasMethods sampleTx1"
    by (simp add: sampleTx1_def sampleTx0_def addSignature_def)
  have d: "matchesAddress ownerC" "matchesHexData ''0xc1''" "\<not> matchesHexData ''0xmocksignature''"
          "ownerC \<noteq> []"
    by code_simp+
  have m: "manualSignature (manualState ownerC ''0xc1'') = sigOf ownerC ''0xc1''"
    by (simp add: manualSignature_def sigOf_def f)
  show ?thesis
    using manual_signature_shape_validation [OF a b c, of "''0xc1''"]
      manual_signature_shape_validation [OF a b c, of "''0xmocksignature''"]
    by (simp add: a b c d f m)
qed

text \<open>
  The claim as stated fails: the one-byte signature \<open>0xc1\<close> is recorded for the third owner
  and, on the same transaction and digest, for the second owner, neither of whom had signed;
  no recovery function validates both claimed signers.
\<close>

theorem manual_signature_recovery_counterexample:
  "manualSignatureRecorded (manualState ownerC ''0xc1'')
   \<and> manualSignatureRecorded (manualState ownerB ''0xc1'')
   \<and> \<not> mapHas (toLowerCase ownerC) (signatures sampleTx1)
   \<and> \<not> mapHas (toLowerCase ownerB) (signatures sampleTx1)
   \<and> \<not> (\<exists>recover. validatedByRecovery recover (manualState ownerC ''0xc1'')
                  \<and> validatedByRecovery recover (manualState ownerB ''0xc1''))"
proof -
  have r: "manualSignatureRecorded (manualState ownerC ''0xc1'')"
          "manualSignatureRecorded (manualState ownerB ''0xc1'')"
          "\<not> mapHas (toLowerCase ownerC) (signatures sampleTx1)"
          "\<not> mapHas (toLowerCase ownerB) (signatures sampleTx1)"
    by code_simp+
  have ne: "toLowerCase ownerC \<noteq> toLowerCase ownerB"
    by code_simp
  have f: "txHash (manualState a d) = ''0x00''" "signatureData (manualState a d) = d"
          "signerAddress (manualState a d) = a" for a d
    by (simp_all add: manualState_def sampleState_def)
  have "\<not> (validatedByRecovery recover (manualState ownerC ''0xc1'')
            \<and> validatedByRecovery recover (manualState ownerB ''0xc1''))" for recover
    using ne by (auto simp: validatedByRecovery_def f split: option.splits)
  with r show ?thesis by blast
qed

text \<open>
  C10. Every signature that \<open>handleAddSignature\<close> puts into the transaction held by the
  component, or into a transaction it saves, and that was not there before, is the
  signature built from the two form fields with \<open>isContractSignature = false\<close>.
\<close>

theorem manual_signature_never_contract:
  assumes "safeTx st = Some tx"
  shows "(\<forall>tx' k sig.
            safeTx (handleAddSignature st) = Some tx' \<and> (k, sig) \<in> set (signatures tx') \<longrightarrow>
            (k, sig) \<in> set (signatures tx)
            \<or> (sig = manualSignature st \<and> \<not> isContractSignature sig))
       \<and> (\<forall>a t c k sig.
            SaveTransaction a t c \<in> set (effects (handleAddSignature st)) \<and>
            SaveTransaction a t c \<notin> set (effects st) \<and> (k, sig) \<in> set (signatures t) \<longrightarrow>
            (k, sig) \<in> set (signatures tx)
            \<or> (sig = manualSignature st \<and> \<not> isContractSignature sig))"
proof -
  have new: "(k, sig) \<in> set (signatures (addSignature (manualSignature st) tx)) \<Longrightarrow>
             (k, sig) \<in> set (signatures tx)
             \<or> (sig = manualSignature st \<and> \<not> isContractSignature sig)" for k sig
    using set_mapSet [of "toLowerCase (signer (manualSignature st))" "manualSignature st"
        "signatures tx"]
    by (auto simp: addSignature_def manualSignature_def)
  consider (idle) "chain st = None"
    | (accept) cid where "chain st = Some cid" "hasMethods tx \<and> signerAddress st \<noteq> []
         \<and> signatureData st \<noteq> [] \<and> matchesAddress (signerAddress st)
         \<and> matchesHexData (signatureData st)"
    | (reject) cid where "chain st = Some cid" "\<not> (hasMethods tx \<and> signerAddress st \<noteq> []
         \<and> signatureData st \<noteq> [] \<and> matchesAddress (signerAddress st)
         \<and> matchesHexData (signatureData st))"
    by (cases "chain st") auto
  then show ?thesis
  proof cases
    case idle
    then have "handleAddSignature st = st"
      by (simp add: handleAddSignature_idle)
    with assms show ?thesis by auto
  next
    case accept
    then have "handleAddSignature st =
           showToast Success ''Signature added successfully!''
             (st\<lparr>effects := effects st @
                    [SaveTransaction (safeAddress st) (addSignature (manualSignature st) tx)
                       (numberToString cid)],
                 safeTx := Some ((addSignature (manualSignature st) tx)\<lparr>hasMethods := False\<rparr>),
                 showAddSigModal := False, signerAddress := [], signatureData := []\<rparr>)"
      using handleAddSignature_accept [OF assms accept(1)] by simp
    then show ?thesis
      using new by (auto simp: showToast_def)
  next
    case reject
    then obtain msg where "handleAddSignature st = showToast Error msg st"
      using handleAddSignature_reject [OF assms reject(1)] by blast
    with assms show ?thesis
      by (auto simp: showToast_def)
  qed
qed

theorem manual_signature_never_contract_witness:
  "safeTx (manualState ownerC ''0xc1'') = Some sampleTx1
   \<and> safeTx (handleAddSignature (manualState ownerC ''0xc1''))
       = Some ((addSignature (sigOf ownerC ''0xc1'') sampleTx1)\<lparr>hasMethods := False\<rparr>)
   \<and> (ownerC, sigOf ownerC ''0xc1'')
       \<in> set (signatures ((addSignature (sigOf ownerC ''0xc1'') sampleTx1)\<lparr>hasMethods := False\<rparr>))
   \<and> (ownerC, sigOf ownerC ''0xc1'') \<notin> set (signatures sampleTx1)
   \<and> \<not> isContractSignature (sigOf ownerC ''0xc1'')"
proof -
  have a: "safeTx (manualState ownerC ''0xc1'') = Some sampleTx1"
    by (simp add: manualState_def sampleState_def)
  have b: "safeTx (handleAddSignature (manualState ownerC ''0xc1''))
       = Some ((addSignature (sigOf ownerC ''0xc1'') sampleTx1)\<lparr>hasMethods := False\<rparr>)"
    by code_simp
  have c: "(ownerC, sigOf ownerC ''0xc1'')
       \<in> set (signatures ((addSignature (sigOf ownerC ''0xc1'') sampleTx1)\<lparr>hasMethods := False\<rparr>))"
    by code_simp
  have d: "(ownerC, sigOf ownerC ''0xc1'') \<notin> set (signatures sampleTx1)"
    by code_simp
  show ?thesis
    using manual_signature_never_contract [OF a] a b c d by blast
qed

subsection \<open>Hashes of a transaction\<close>

lemma eip712Effect_loaded:
  assumes "safeTx st = Some tx" and "safeInfo st = Some info" and "chain st = Some cid"
  shows "eip712Data (eip712Effect E st) =
           (case (hashDomain E (safeTxDomain cid (safeAddress st)),
                  hashStruct E ''SafeTx'' safeTxTypes (safeTxMessage (txData tx)),
                  hashTypedData E (safeTxDomain cid (safeAddress st)) safeTxTypes
                    (safeTxMessage (txData tx))) of
              (Some dh, Some mh, Some h) \<Rightarrow>
                Some \<lparr>domainHash = dh, messageHash = mh, eip712Hash = h\<rparr>
            | _ \<Rightarrow> None)"
  using assms by (simp add: eip712Effect_def Let_def split: option.splits)

lemma eip712Effect_keeps:
  "safeTx (eip712Effect E st) = safeTx st \<and> safeInfo (eip712Effect E st) = safeInfo st
   \<and> chain (eip712Effect E st) = chain st \<and> safeAddress (eip712Effect E st) = safeAddress st
   \<and> effects (eip712Effect E st) = effects st
   \<and> broadcastHash (eip712Effect E st) = broadcastHash st
   \<and> showModal (eip712Effect E st) = showModal st"
  by (simp add: eip712Effect_def Let_def split: option.splits)

lemma isDigest_sampleDigest: "n \<le> 9 \<Longrightarrow> isDigest (sampleDigest n)"
  by (simp add: isDigest_def sampleDigest_def matchesHexData_def isHexDigit_def list_all_iff)

lemma sampleEthers_digests: "ethersDigests sampleEthers"
  by (auto simp: ethersDigests_def sampleEthers_def isDigest_sampleDigest split: jsval.splits)

text \<open>
  C1. The EIP-712 hashes the component computes for a loaded transaction (\<open>domainHash\<close>,
  \<open>messageHash\<close> and the digest \<open>eip712Hash\<close>) are a function of the transaction data, the
  Safe address and the chain id: two states that agree on these yield the same three
  hashes, whatever signatures the transactions carry, whatever the Safe version and the rest
  of the state are; running the effect again yields them again; and they are 32-byte
  digests when the library's hash functions return 32-byte digests.
\<close>

theorem safeTxHash_deterministic:
  assumes "safeTx st1 = Some tx1" and "safeTx st2 = Some tx2"
    and "txData tx1 = txData tx2"
    and "safeInfo st1 = Some info1" and "safeInfo st2 = Some info2"
    and "chain st1 = Some cid" and "chain st2 = Some cid"
    and "safeAddress st1 = safeAddress st2"
  shows "eip712Data (eip712Effect E st1) = eip712Data (eip712Effect E st2)
       \<and> eip712Data (eip712Effect E (eip712Effect E st1)) = eip712Data (eip712Effect E st1)
       \<and> (ethersDigests E \<longrightarrow>
            (\<forall>d. eip712Data (eip712Effect E st1) = Some d \<longrightarrow>
               isDigest (domainHash d) \<and> isDigest (messageHash d) \<and> isDigest (eip712Hash d)))"
proof -
  have e1: "eip712Data (eip712Effect E st1) =
           (case (hashDomain E (safeTxDomain cid (safeAddress st1)),
                  hashStruct E ''SafeTx'' safeTxTypes (safeTxMessage (txData tx1)),
                  hashTypedData E (safeTxDomain cid (safeAddress st1)) safeTxTypes
                    (safeTxMessage (txData tx1))) of
              (Some dh, Some mh, Some h) \<Rightarrow>
                Some \<lparr>domainHash = dh, messageHash = mh, eip712Hash = h\<rparr>
            | _ \<Rightarrow> None)"
    by (rule eip712Effect_loaded [OF assms(1,4,6)])
  have e2: "eip712Data (eip712Effect E st2) = eip712Data (eip712Effect E st1)"
    unfolding e1 eip712Effect_loaded [OF assms(2,5,7)] assms(3,8) ..
  have e3: "eip712Data (eip712Effect E (eip712Effect E st1)) = eip712Data (eip712Effect E st1)"
    unfolding e1 using eip712Effect_loaded [of "eip712Effect E st1" tx1 info1 cid E]
    by (simp add: eip712Effect_keeps assms)
  have e4: "isDigest (domainHash d) \<and> isDigest (messageHash d) \<and> isDigest (eip712Hash d)"
    if "ethersDigests E" and "eip712Data (eip712Effect E st1) = Some d" for d
    using that unfolding e1 ethersDigests_def
    by (auto split: option.splits)
  show ?thesis
    using e2 e3 e4 by simp
qed

theorem safeTxHash_deterministic_witness:
  "safeTx (sampleState sampleTx0 ''1.4.1'') = Some sampleTx0
   \<and> safeTx (sampleState sampleTx2 ''1.2.0'') = Some sampleTx2
   \<and> txData sampleTx0 = txData sampleTx2
   \<and> signatures sampleTx0 \<noteq> signatures sampleTx2
   \<and> safeInfo (sampleState sampleTx0 ''1.4.1'') = Some (sampleInfo ''1.4.1'')
   \<and> safeInfo (sampleState sampleTx2 ''1.2.0'') = Some (sampleInfo ''1.2.0'')
   \<and> chain (sampleState sampleTx0 ''1.4.1'') = Some 1
   \<and> chain (sampleState sampleTx2 ''1.2.0'') = Some 1
   \<and> safeAddress (sampleState sampleTx0 ''1.4.1'') = safeAddress (sampleState sampleTx2 ''1.2.0'')
   \<and> ethersDigests sampleEthers
   \<and> eip712Data (eip712Effect sampleEthers (sampleState sampleTx0 ''1.4.1''))
       = Some \<lparr>domainHash = sampleDigest 2, messageHash = sampleDigest 3,
                eip712Hash = sampleDigest 6\<rparr>
   \<and> eip712Data (eip712Effect sampleEthers (sampleState sampleTx2 ''1.2.0''))
       = Some \<lparr>domainHash = sampleDigest 2, messageHash = sampleDigest 3,
                eip712Hash = sampleDigest 6\<rparr>
   \<and> isDigest (sampleDigest 2) \<and> isDigest (sampleDigest 3) \<and> isDigest (sampleDigest 6)"
proof -
  have a: "safeTx (sampleState sampleTx0 ''1.4.1'') = Some sampleTx0"
    and b: "safeTx (sampleState sampleTx2 ''1.2.0'') = Some sampleTx2"
    and d: "safeInfo (sampleState sampleTx0 ''1.4.1'') = Some (sampleInfo ''1.4.1'')"
    and e: "safeInfo (sampleState sampleTx2 ''1.2.0'') = Some (sampleInfo ''1.2.0'')"
    and f: "chain (sampleState sampleTx0 ''1.4.1'') = Some 1"
    and g: "chain (sampleState sampleTx2 ''1.2.0'') = Some 1"
    and h: "safeAddress (sampleState sampleTx0 ''1.4.1'') = safeAddress (sampleState sampleTx2 ''1.2.0'')"
    by (simp_all add: sampleState_def)
  have c: "txData sampleTx0 = txData sampleTx2"
    by (simp add: sampleTx2_def sampleTx1_def addSignature_def)
  have i: "signatures sampleTx0 \<noteq> signatures sampleTx2"
    by code_simp
  have j: "eip712Data (eip712Effect sampleEthers (sampleState sampleTx0 ''1.4.1''))
       = Some \<lparr>domainHash = sampleDigest 2, messageHash = sampleDigest 3,
                eip712Hash = sampleDigest 6\<rparr>"
    by (simp add: eip712Effect_loaded [OF a d f] sampleEthers_def safeTxDomain_def keyCount_def
        numeral_2_eq_2 [symmetric])
  show ?thesis
    using safeTxHash_deterministic [OF a b c d e f g h, of sampleEthers]
      sampleEthers_digests a b c d e f g h i j
    by simp
qed

text \<open>
  C2, on a Safe of version 1.2.0: the SafeMessage domain of the signing component leaves
  \<open>chainId\<close> out below 1.3.0 and has it from 1.3.0 on, while the domain the details component
  hashes for the SafeTx of the same Safe carries \<open>chainId\<close>.
\<close>

theorem safeTx_domain_chainId_below_1_3_0:
  "jsStringLess ''1.2.0'' ''1.3.0''
   \<and> safeMessageDomain (sampleInfo ''1.2.0'') 1 sampleSafe
       = JObject [(''verifyingContract'', JString sampleSafe)]
   \<and> safeMessageDomain (sampleInfo ''1.3.0'') 1 sampleSafe
       = JObject [(''chainId'', JNumber 1), (''verifyingContract'', JString sampleSafe)]
   \<and> eip712Data (eip712Effect E (sampleState sampleTx0 ''1.2.0'')) =
       (case (hashDomain E
                (JObject [(''chainId'', JNumber 1), (''verifyingContract'', JString sampleSafe)]),
              hashStruct E ''SafeTx'' safeTxTypes (safeTxMessage sampleData),
              hashTypedData E
                (JObject [(''chainId'', JNumber 1), (''verifyingContract'', JString sampleSafe)])
                safeTxTypes (safeTxMessage sampleData)) of
          (Some dh, Some mh, Some h) \<Rightarrow>
            Some \<lparr>domainHash = dh, messageHash = mh, eip712Hash = h\<rparr>
        | _ \<Rightarrow> None)"
proof -
  have a: "jsStringLess ''1.2.0'' ''1.3.0''"
    by code_simp
  have b: "safeMessageDomain (sampleInfo ''1.2.0'') 1 sampleSafe
       = JObject [(''verifyingContract'', JString sampleSafe)]"
    by code_simp
  have c: "safeMessageDomain (sampleInfo ''1.3.0'') 1 sampleSafe
       = JObject [(''chainId'', JNumber 1), (''verifyingContract'', JString sampleSafe)]"
    by code_simp
  have s: "safeTx (sampleState sampleTx0 ''1.2.0'') = Some sampleTx0"
    "safeInfo (sampleState sampleTx0 ''1.2.0'') = Some (sampleInfo ''1.2.0'')"
    "chain (sampleState sampleTx0 ''1.2.0'') = Some 1"
    "safeAddress (sampleState sampleTx0 ''1.2.0'') = sampleSafe"
    "txData sampleTx0 = sampleData"
    by (simp_all add: sampleState_def sampleTx0_def)
  show ?thesis
    using a b c by (simp add: eip712Effect_loaded [OF s(1,2,3)] s safeTxDomain_def)
qed

subsection \<open>Hashes of a message\<close>




subsection \<open>Forms of a transaction file\<close>

lemma handleExportSingle_loaded:
  "safeTx st = Some tx \<Longrightarrow>
   effects (handleExportSingle st) =
     effects st @
       [Download (''safe-tx-nonce-'' @ numberToString (nonce (txData tx)) @ ''.json'')
          (JObject [(''tx'', wireTx tx)]),
        SetTimeoutClearToast]"
  by (simp add: handleExportSingle_def showToast_def)

lemma handleShareLink_loaded:
  "safeTx st = Some tx \<Longrightarrow> chain st = Some cid \<Longrightarrow>
   btoa B (stringify B (JObject [(''tx'', wireTx tx)])) = Some encoded \<Longrightarrow>
   effects (handleShareLink B st) =
     effects st @
       [ClipboardWriteText
          (origin B @ ''/safe/'' @ safeAddress st @ ''?importTx='' @
           encodeURIComponent B encoded @ ''&chainId='' @ numberToString cid),
        SetTimeoutClearToast]"
  by (simp add: handleShareLink_def showToast_def)

text \<open>
  C4, as the code has it. The import accepts the single form and the batch form. The export
  of the dashboard emits the batch form; the export of the transaction details component
  (\<open>handleExportSingle\<close>) and its share link emit the single form \<open>{ "tx": ... }\<close>, which
  the import accepts and reads back as the one wire transaction.
\<close>

theorem transaction_file_forms:
  "(safeTx st = Some tx \<longrightarrow>
      effects (handleExportSingle st) =
        effects st @
          [Download (''safe-tx-nonce-'' @ numberToString (nonce (txData tx)) @ ''.json'')
             (JObject [(''tx'', wireTx tx)]),
           SetTimeoutClearToast])
   \<and> (\<forall>cid encoded.
        safeTx st = Some tx \<and> chain st = Some cid \<and>
        btoa B (stringify B (JObject [(''tx'', wireTx tx)])) = Some encoded \<longrightarrow>
        effects (handleShareLink B st) =
          effects st @
            [ClipboardWriteText
               (origin B @ ''/safe/'' @ safeAddress st @ ''?importTx='' @
                encodeURIComponent B encoded @ ''&chainId='' @ numberToString cid),
             SetTimeoutClearToast])
   \<and> isSingleForm (JObject [(''tx'', wireTx tx)])
   \<and> \<not> isBatchForm (JObject [(''tx'', wireTx tx)])
   \<and> importTransactionFile (JObject [(''tx'', wireTx tx)]) = Some [wireTx tx]
   \<and> isBatchForm (dashboardExport txs)
   \<and> importTransactionFile (dashboardExport txs) = Some (map wireTx txs)
   \<and> importTransactionFile (JObject [(''transactions'', JArray ws)]) = Some ws
   \<and> (truthy w \<longrightarrow> importTransactionFile (JObject [(''tx'', w)]) = Some [w])"
proof -
  have forms: "isSingleForm (JObject [(''tx'', wireTx tx)])"
    "\<not> isBatchForm (JObject [(''tx'', wireTx tx)])"
    "importTransactionFile (JObject [(''tx'', wireTx tx)]) = Some [wireTx tx]"
    by (simp_all add: isSingleForm_def isBatchForm_def importTransactionFile_def wireTx_def)
  have batch: "isBatchForm (dashboardExport txs)"
    "importTransactionFile (dashboardExport txs) = Some (map wireTx txs)"
    "importTransactionFile (JObject [(''transactions'', JArray ws)]) = Some ws"
    by (simp_all add: isBatchForm_def importTransactionFile_def dashboardExport_def)
  have single: "truthy w \<longrightarrow> importTransactionFile (JObject [(''tx'', w)]) = Some [w]"
    by (simp add: importTransactionFile_def)
  show ?thesis
    using forms batch single handleExportSingle_loaded [of st tx]
      handleShareLink_loaded [of st tx _ B]
    by blast
qed

theorem transaction_file_forms_witness:
  "safeTx (sampleState sampleTx2 ''1.4.1'') = Some sampleTx2
   \<and> effects (handleExportSingle (sampleState sampleTx2 ''1.4.1'')) =
       [Download ''safe-tx-nonce-4.json'' (JObject [(''tx'', wireTx sampleTx2)]),
        SetTimeoutClearToast]
   \<and> truthy (wireTx sampleTx2)
   \<and> importTransactionFile (JObject [(''tx'', wireTx sampleTx2)]) = Some [wireTx sampleTx2]"
proof -
  have a: "safeTx (sampleState sampleTx2 ''1.4.1'') = Some sampleTx2"
    and b: "effects (sampleState sampleTx2 ''1.4.1'') = []"
    by (simp_all add: sampleState_def)
  have c: "numberToString (nonce (txData sampleTx2)) = ''4''"
    by code_simp
  have d: "truthy (wireTx sampleTx2)"
    by (simp add: wireTx_def)
  note th = transaction_file_forms [of "sampleState sampleTx2 ''1.4.1''" sampleTx2 sampleBrowser
        "[]" "[]" "wireTx sampleTx2"]
  from th a have e: "effects (handleExportSingle (sampleState sampleTx2 ''1.4.1'')) =
        effects (sampleState sampleTx2 ''1.4.1'') @
          [Download (''safe-tx-nonce-'' @ numberToString (nonce (txData sampleTx2)) @ ''.json'')
             (JObject [(''tx'', wireTx sampleTx2)]),
           SetTimeoutClearToast]"
    by blast
  from th have f: "importTransactionFile (JObject [(''tx'', wireTx sampleTx2)])
      = Some [wireTx sampleTx2]"
    by blast
  show ?thesis
    using a d f by (simp add: e b c)
qed

text \<open>
  The claim as stated fails: the file exported for the sample transaction has the key \<open>tx\<close>
  and no \<open>transactions\<close>.
\<close>

theorem export_single_form_counterexample:
  "effects (handleExportSingle (sampleState sampleTx2 ''1.4.1'')) =
       [Download ''safe-tx-nonce-4.json'' (JObject [(''tx'', wireTx sampleTx2)]),
        SetTimeoutClearToast]
   \<and> \<not> isBatchForm (JObject [(''tx'', wireTx sampleTx2)])
   \<and> jsGet (JObject [(''tx'', wireTx sampleTx2)]) ''transactions'' = JUndefined"
proof -
  have a: "safeTx (sampleState sampleTx2 ''1.4.1'') = Some sampleTx2"
    and b: "effects (sampleState sampleTx2 ''1.4.1'') = []"
    by (simp_all add: sampleState_def)
  have c: "numberToString (nonce (txData sampleTx2)) = ''4''"
    by code_simp
  show ?thesis
    by (simp add: handleExportSingle_loaded [OF a] b c isBatchForm_def)
qed

subsection \<open>Broadcasting\<close>



















end
